theory Spec2Isabelle
  imports Main
begin

section \<open>The Time class of oop\_time.py\<close>

text \<open>
  A shallow embedding of the class \<open>Time\<close>. Python integers are unbounded, so they are
  \<open>int\<close>; Python's \<open>//\<close> and \<open>%\<close> are floored, as \<open>div\<close> and \<open>mod\<close> on \<open>int\<close> are.
  A Python \<open>str\<close> is a \<open>string\<close>, each \<open>char\<close> standing for the code point of the
  same number, so the model covers text whose code points are below 256. Exceptions are
  values: every function that can raise returns \<open>exc + 'a\<close>, with \<open>Inl\<close> the exception.
\<close>

subsection \<open>Exceptions\<close>

text \<open>
  \<open>ValueError msg cause\<close> is a \<open>ValueError\<close> raised by the class itself, with its message
  and its \<open>__cause__\<close> (set by \<open>raise ... from e\<close>). The next five are the \<open>ValueError\<close>s
  that the interpreter raises: \<open>int()\<close> on a text that is no integer literal, \<open>int()\<close> on a
  text of too many digits (with their number), the conversion of an integer of too many
  digits to text, and tuple unpacking of too few or too many values. \<open>TypeError\<close> carries
  its message.
\<close>

datatype exc =
    ValueError string "exc option"
  | IntLiteralError string
  | IntDigitLimit nat
  | StrDigitLimit
  | NotEnoughValues nat
  | TooManyValues
  | TypeError string

fun is_ValueError :: "exc \<Rightarrow> bool" where
  "is_ValueError (TypeError _) = False"
| "is_ValueError _ = True"

subsection \<open>Integers and text\<close>

text \<open>
  The interpreter refuses to convert between \<open>int\<close> and \<open>str\<close> when more decimal digits
  are involved than \<open>sys.get_int_max_str_digits()\<close>; this is its default value.
\<close>

definition max_str_digits :: nat where
  "max_str_digits = 4300"

definition digit_char :: "nat \<Rightarrow> char" where
  "digit_char n = char_of (48 + n)"

definition is_digit :: "char \<Rightarrow> bool" where
  "is_digit c = (48 \<le> (of_char c :: nat) \<and> (of_char c :: nat) \<le> 57)"

definition digit_val :: "char \<Rightarrow> int" where
  "digit_val c = int (of_char c) - 48"

text \<open>The characters that \<open>int()\<close> skips at both ends of its argument.\<close>

definition is_space :: "char \<Rightarrow> bool" where
  "is_space c =
     (let n = (of_char c :: nat)
      in (9 \<le> n \<and> n \<le> 13) \<or> n = 32 \<or> n = 133 \<or> n = 160)"

text \<open>The decimal digits of a natural number, and of an integer with its sign.\<close>

fun nat_digits :: "nat \<Rightarrow> string" where
  "nat_digits n =
     (if n < 10 then [digit_char n]
      else nat_digits (n div 10) @ [digit_char (n mod 10)])"

declare nat_digits.simps [simp del]

definition decimal :: "int \<Rightarrow> string" where
  "decimal n = (if n < 0 then CHR ''-'' # nat_digits (nat (- n)) else nat_digits (nat n))"

definition num_digits :: "int \<Rightarrow> nat" where
  "num_digits n = length (nat_digits (nat \<bar>n\<bar>))"

text \<open>\<open>str(n)\<close> for an integer, also where an f-string formats it without a specification.\<close>

definition py_str :: "int \<Rightarrow> exc + string" where
  "py_str n = (if max_str_digits < num_digits n then Inl StrDigitLimit else Inr (decimal n))"

text \<open>
  The format specification \<open>02d\<close>: decimal, at least two characters wide, padded with
  zeros between the sign and the digits.
\<close>

definition format_02d :: "int \<Rightarrow> exc + string" where
  "format_02d n =
     (let ds = nat_digits (nat \<bar>n\<bar>);
          sgn = (if n < 0 then ''-'' else '''')
      in if max_str_digits < length ds then Inl StrDigitLimit
         else Inr (sgn @ replicate (2 - length sgn - length ds) CHR ''0'' @ ds))"

text \<open>
  \<open>int(s)\<close> in base 10: optional whitespace, an optional sign, then digits, where single
  underscores may stand between two digits, then optional whitespace. \<open>int_digits\<close> reads
  what follows a digit. The interpreter takes the longest run of digits and underscores
  after the sign, refuses it when it is no such sequence of digits, then when it has too
  many digits, and only then looks at what follows the run.
\<close>

fun int_digits :: "int \<Rightarrow> string \<Rightarrow> int option" where
  "int_digits acc [] = Some acc"
| "int_digits acc [c] = (if is_digit c then Some (acc * 10 + digit_val c) else None)"
| "int_digits acc (c # d # cs) =
     (if is_digit c then int_digits (acc * 10 + digit_val c) (d # cs)
      else if c = CHR ''_'' \<and> is_digit d then int_digits (acc * 10 + digit_val d) cs
      else None)"

definition unsigned_int :: "string \<Rightarrow> int option" where
  "unsigned_int s =
     (case s of
        [] \<Rightarrow> None
      | c # cs \<Rightarrow> if is_digit c then int_digits (digit_val c) cs else None)"

definition is_run_char :: "char \<Rightarrow> bool" where
  "is_run_char c = (is_digit c \<or> c = CHR ''_'')"

definition py_int :: "string \<Rightarrow> exc + int" where
  "py_int s =
     (let body = dropWhile is_space s;
          neg = (body \<noteq> [] \<and> hd body = CHR ''-'');
          signed = (body \<noteq> [] \<and> (hd body = CHR ''+'' \<or> hd body = CHR ''-''));
          ds = (if signed then tl body else body);
          run = takeWhile is_run_char ds;
          rest = dropWhile is_run_char ds;
          n = length (filter is_digit run)
      in case unsigned_int run of
           None \<Rightarrow> Inl (IntLiteralError s)
         | Some v \<Rightarrow>
             if max_str_digits < n then Inl (IntDigitLimit n)
             else if dropWhile is_space rest \<noteq> [] then Inl (IntLiteralError s)
             else Inr (if neg then - v else v))"

text \<open>\<open>s.split(sep)\<close> for a one-character separator: never empty, one more field than separators.\<close>

fun split_on :: "char \<Rightarrow> string \<Rightarrow> string list" where
  "split_on sep [] = [[]]"
| "split_on sep (c # cs) =
     (if c = sep then [] # split_on sep cs
      else (case split_on sep cs of
              [] \<Rightarrow> [[c]]
            | w # ws \<Rightarrow> (c # w) # ws))"

text \<open>
  \<open>hours, minutes, seconds = map(int, fields)\<close>: \<open>map\<close> is lazy, so the fields are converted
  one by one as the unpacking asks for them; it asks for a fourth to see that there is none.
\<close>

definition unpack3_map_int :: "string list \<Rightarrow> exc + (int \<times> int \<times> int)" where
  "unpack3_map_int fs =
     (case fs of
        [] \<Rightarrow> Inl (NotEnoughValues 0)
      | f1 # r1 \<Rightarrow>
         (case py_int f1 of Inl e \<Rightarrow> Inl e | Inr h \<Rightarrow>
           (case r1 of
              [] \<Rightarrow> Inl (NotEnoughValues 1)
            | f2 # r2 \<Rightarrow>
               (case py_int f2 of Inl e \<Rightarrow> Inl e | Inr m \<Rightarrow>
                 (case r2 of
                    [] \<Rightarrow> Inl (NotEnoughValues 2)
                  | f3 # r3 \<Rightarrow>
                     (case py_int f3 of Inl e \<Rightarrow> Inl e | Inr s \<Rightarrow>
                       (case r3 of
                          [] \<Rightarrow> Inr (h, m, s)
                        | f4 # _ \<Rightarrow>
                           (case py_int f4 of Inl e \<Rightarrow> Inl e
                            | Inr _ \<Rightarrow> Inl TooManyValues))))))))"

subsection \<open>The class\<close>

record Time =
  total_seconds :: int

text \<open>The invariant of the class: a second of the day.\<close>

definition valid :: "Time \<Rightarrow> bool" where
  "valid t = (0 \<le> total_seconds t \<and> total_seconds t < 86400)"

text \<open>
  The f-string of the range error formats the two bounds and the value in turn; a value of
  too many digits makes the formatting itself raise.
\<close>

definition range_message :: "string \<Rightarrow> int \<Rightarrow> int \<Rightarrow> int \<Rightarrow> exc + string" where
  "range_message name min_val max_val v =
     (case py_str min_val of Inl e \<Rightarrow> Inl e | Inr lo \<Rightarrow>
      (case py_str max_val of Inl e \<Rightarrow> Inl e | Inr hi \<Rightarrow>
       (case py_str v of Inl e \<Rightarrow> Inl e | Inr got \<Rightarrow>
          Inr (name @ '' must be between '' @ lo @ ''-'' @ hi @ '', got '' @ got))))"

definition validate_range :: "int \<Rightarrow> int \<Rightarrow> int \<Rightarrow> string \<Rightarrow> exc + unit" where
  "validate_range v min_val max_val name =
     (if \<not> (min_val \<le> v \<and> v \<le> max_val)
      then (case range_message name min_val max_val v of
              Inl e \<Rightarrow> Inl e
            | Inr msg \<Rightarrow> Inl (ValueError msg None))
      else Inr ())"

definition Time_init :: "int \<Rightarrow> int \<Rightarrow> int \<Rightarrow> exc + Time" where
  "Time_init h m s =
     (case validate_range h 0 23 ''hours'' of Inl e \<Rightarrow> Inl e | Inr _ \<Rightarrow>
      (case validate_range m 0 59 ''minutes'' of Inl e \<Rightarrow> Inl e | Inr _ \<Rightarrow>
       (case validate_range s 0 59 ''seconds'' of Inl e \<Rightarrow> Inl e | Inr _ \<Rightarrow>
          Inr \<lparr>total_seconds = h * 3600 + m * 60 + s\<rparr>)))"

text \<open>The constructor call with any of its arguments left out: a missing one is 0.\<close>

definition Time_call :: "int option \<Rightarrow> int option \<Rightarrow> int option \<Rightarrow> exc + Time" where
  "Time_call h m s =
     Time_init (case h of None \<Rightarrow> 0 | Some x \<Rightarrow> x)
               (case m of None \<Rightarrow> 0 | Some x \<Rightarrow> x)
               (case s of None \<Rightarrow> 0 | Some x \<Rightarrow> x)"

definition hours :: "Time \<Rightarrow> int" where
  "hours t = total_seconds t div 3600"

definition minutes :: "Time \<Rightarrow> int" where
  "minutes t = (total_seconds t mod 3600) div 60"

definition seconds :: "Time \<Rightarrow> int" where
  "seconds t = total_seconds t mod 60"

definition from_seconds :: "int \<Rightarrow> exc + Time" where
  "from_seconds x =
     (if \<not> (0 \<le> x \<and> x < 86400)
      then Inl (ValueError ''Total seconds must represent a valid 24-hour time (0-86399)'' None)
      else Time_init (x div 3600) ((x mod 3600) div 60) (x mod 60))"

definition format_message :: string where
  "format_message = ''Time string must be in HH:MM:SS format''"

text \<open>
  The \<open>try\<close> block holds both the parsing and the constructor call, and the handler
  replaces every \<open>ValueError\<close> by one with the format message, chained to the original.
\<close>

definition from_string :: "string \<Rightarrow> exc + Time" where
  "from_string time_str =
     (let attempt =
        (case unpack3_map_int (split_on CHR '':'' time_str) of
           Inl e \<Rightarrow> Inl e
         | Inr (h, m, s) \<Rightarrow> Time_init h m s)
      in case attempt of
           Inl e \<Rightarrow> if is_ValueError e then Inl (ValueError format_message (Some e)) else Inl e
         | Inr t \<Rightarrow> Inr t)"

definition to_seconds :: "Time \<Rightarrow> int" where
  "to_seconds t = total_seconds t"

definition to_tuple :: "Time \<Rightarrow> int \<times> int \<times> int" where
  "to_tuple t = (hours t, minutes t, seconds t)"

text \<open>The f-string of \<open>__str__\<close> formats the hours, the minutes and the seconds in turn.\<close>

definition Time_str :: "Time \<Rightarrow> exc + string" where
  "Time_str t =
     (case format_02d (hours t) of Inl e \<Rightarrow> Inl e | Inr hh \<Rightarrow>
      (case format_02d (minutes t) of Inl e \<Rightarrow> Inl e | Inr mm \<Rightarrow>
       (case format_02d (seconds t) of Inl e \<Rightarrow> Inl e | Inr ss \<Rightarrow>
          Inr (hh @ '':'' @ mm @ '':'' @ ss))))"

subsection \<open>Operands of any type\<close>

text \<open>
  A comparison method returns a truth value or \<open>NotImplemented\<close>. What a method of
  another class does when it is called with a \<open>Time\<close> is an \<open>outcome\<close>: it declines
  (returns \<open>NotImplemented\<close>, as it also does when the class has no such method of its
  own), answers, or raises.
\<close>

datatype cmp = NotImplemented | Result bool

datatype outcome = Declines | Answers bool | Raises exc

datatype cmp_method = Meth_eq | Meth_ne | Meth_lt | Meth_le | Meth_gt | Meth_ge

text \<open>
  The right operand of an operator is a \<open>Time\<close>, an \<open>int\<close>, or a value of some other
  type: of that, the name of the type and what its comparison methods do with a \<open>Time\<close>.
\<close>

datatype pyval = TimeV Time | IntV int | OtherV string "cmp_method \<Rightarrow> outcome"

definition quoted :: "string \<Rightarrow> string" where
  "quoted s = CHR 0x27 # s @ [CHR 0x27]"

definition type_name :: "pyval \<Rightarrow> string" where
  "type_name v = (case v of TimeV _ \<Rightarrow> ''Time'' | IntV _ \<Rightarrow> ''int'' | OtherV ty _ \<Rightarrow> ty)"

definition Time_add :: "Time \<Rightarrow> pyval \<Rightarrow> exc + Time" where
  "Time_add t other =
     (case other of
        TimeV u \<Rightarrow> from_seconds ((total_seconds t + total_seconds u) mod 86400)
      | IntV n \<Rightarrow> from_seconds ((total_seconds t + n) mod 86400)
      | OtherV ty _ \<Rightarrow>
          Inl (TypeError (''Unsupported operand type(s) for +: '' @ quoted ''Time''
                 @ '' and '' @ quoted ty)))"

definition Time_sub :: "Time \<Rightarrow> pyval \<Rightarrow> exc + Time" where
  "Time_sub t other =
     (case other of
        TimeV u \<Rightarrow> from_seconds ((total_seconds t - total_seconds u) mod 86400)
      | IntV n \<Rightarrow> from_seconds ((total_seconds t - n) mod 86400)
      | OtherV ty _ \<Rightarrow>
          Inl (TypeError (''Unsupported operand type(s) for -: '' @ quoted ''Time''
                 @ '' and '' @ quoted ty)))"

definition Time_eq :: "Time \<Rightarrow> pyval \<Rightarrow> cmp" where
  "Time_eq t other =
     (case other of
        TimeV u \<Rightarrow> Result (total_seconds t = total_seconds u)
      | _ \<Rightarrow> NotImplemented)"

definition Time_lt :: "Time \<Rightarrow> pyval \<Rightarrow> cmp" where
  "Time_lt t other =
     (case other of
        TimeV u \<Rightarrow> Result (total_seconds t < total_seconds u)
      | _ \<Rightarrow> NotImplemented)"

text \<open>
  The method of the right operand that the interpreter calls, with the \<open>Time\<close> as its
  argument, after the method of \<open>Time\<close> has returned \<open>NotImplemented\<close>. The methods of
  \<open>int\<close> decline a \<open>Time\<close>; those of \<open>Time\<close> never return \<open>NotImplemented\<close> for a \<open>Time\<close>,
  so that for such an operand no second call is made.
\<close>

definition reflected :: "pyval \<Rightarrow> cmp_method \<Rightarrow> outcome" where
  "reflected other m = (case other of OtherV _ f \<Rightarrow> f m | _ \<Rightarrow> Declines)"

text \<open>
  \<open>t == other\<close> and \<open>t != other\<close> with a \<open>Time\<close> on the left: \<open>__eq__\<close> of \<open>Time\<close> first
  (for \<open>!=\<close> through the inherited \<open>__ne__\<close>, which negates it), then the method of the
  operand, and when both decline the comparison of identity, which tells a \<open>Time\<close> from
  any value that is not a \<open>Time\<close>.
\<close>

definition op_eq :: "Time \<Rightarrow> pyval \<Rightarrow> exc + bool" where
  "op_eq t other =
     (case Time_eq t other of
        Result b \<Rightarrow> Inr b
      | NotImplemented \<Rightarrow>
          (case reflected other Meth_eq of
             Answers b \<Rightarrow> Inr b
           | Raises e \<Rightarrow> Inl e
           | Declines \<Rightarrow> Inr False))"

definition op_ne :: "Time \<Rightarrow> pyval \<Rightarrow> exc + bool" where
  "op_ne t other =
     (case Time_eq t other of
        Result b \<Rightarrow> Inr (\<not> b)
      | NotImplemented \<Rightarrow>
          (case reflected other Meth_ne of
             Answers b \<Rightarrow> Inr b
           | Raises e \<Rightarrow> Inl e
           | Declines \<Rightarrow> Inr True))"

text \<open>
  The three methods that the decorator \<open>total_ordering\<close> adds to a class that defines
  \<open>__lt__\<close>: each calls \<open>__lt__\<close>, hands \<open>NotImplemented\<close> on, and otherwise combines the
  result with \<open>==\<close> or \<open>!=\<close> (\<open>op_result or self == other\<close>,
  \<open>not op_result and self != other\<close>, \<open>not op_result\<close>).
\<close>

definition Time_le :: "Time \<Rightarrow> pyval \<Rightarrow> exc + cmp" where
  "Time_le t other =
     (case Time_lt t other of
        NotImplemented \<Rightarrow> Inr NotImplemented
      | Result b \<Rightarrow>
          if b then Inr (Result True)
          else (case op_eq t other of Inl e \<Rightarrow> Inl e | Inr r \<Rightarrow> Inr (Result r)))"

definition Time_gt :: "Time \<Rightarrow> pyval \<Rightarrow> exc + cmp" where
  "Time_gt t other =
     (case Time_lt t other of
        NotImplemented \<Rightarrow> Inr NotImplemented
      | Result b \<Rightarrow>
          if b then Inr (Result False)
          else (case op_ne t other of Inl e \<Rightarrow> Inl e | Inr r \<Rightarrow> Inr (Result r)))"

definition Time_ge :: "Time \<Rightarrow> pyval \<Rightarrow> exc + cmp" where
  "Time_ge t other =
     (case Time_lt t other of
        NotImplemented \<Rightarrow> Inr NotImplemented
      | Result b \<Rightarrow> Inr (Result (\<not> b)))"

text \<open>
  An ordering operator with a \<open>Time\<close> on the left: the method of \<open>Time\<close>, then the
  mirrored method of the operand (\<open>__gt__\<close> for \<open><\<close>, and so on), and \<open>TypeError\<close> when
  both decline.
\<close>

definition op_order ::
  "string \<Rightarrow> cmp_method \<Rightarrow> (Time \<Rightarrow> pyval \<Rightarrow> exc + cmp) \<Rightarrow> Time \<Rightarrow> pyval \<Rightarrow> exc + bool" where
  "op_order opname mirrored method t other =
     (case method t other of
        Inl e \<Rightarrow> Inl e
      | Inr (Result b) \<Rightarrow> Inr b
      | Inr NotImplemented \<Rightarrow>
          (case reflected other mirrored of
             Answers b \<Rightarrow> Inr b
           | Raises e \<Rightarrow> Inl e
           | Declines \<Rightarrow>
               Inl (TypeError (quoted opname @ '' not supported between instances of ''
                      @ quoted ''Time'' @ '' and '' @ quoted (type_name other)))))"

definition op_lt :: "Time \<Rightarrow> pyval \<Rightarrow> exc + bool" where
  "op_lt = op_order ''<'' Meth_gt (\<lambda>t other. Inr (Time_lt t other))"

definition op_le :: "Time \<Rightarrow> pyval \<Rightarrow> exc + bool" where
  "op_le = op_order ''<='' Meth_ge Time_le"

definition op_gt :: "Time \<Rightarrow> pyval \<Rightarrow> exc + bool" where
  "op_gt = op_order ''>'' Meth_lt Time_gt"

definition op_ge :: "Time \<Rightarrow> pyval \<Rightarrow> exc + bool" where
  "op_ge = op_order ''>='' Meth_le Time_ge"

definition is_TypeError :: "exc + bool \<Rightarrow> bool" where
  "is_TypeError r = (case r of Inl (TypeError _) \<Rightarrow> True | _ \<Rightarrow> False)"

text \<open>An operand whose comparison methods all decline a \<open>Time\<close>, as those of \<open>str\<close> do.\<close>

definition declining :: "cmp_method \<Rightarrow> outcome" where
  "declining m = Declines"

text \<open>
  The reading of a text that the specification of \<open>from_string\<close> speaks of: exactly three
  fields between colons, each of them an integer literal for \<open>int()\<close>.
\<close>

definition parsed_fields :: "string \<Rightarrow> (int \<times> int \<times> int) option" where
  "parsed_fields s =
     (case split_on CHR '':'' s of
        [f1, f2, f3] \<Rightarrow>
          (case (py_int f1, py_int f2, py_int f3) of
             (Inr h, Inr m, Inr sec) \<Rightarrow> Some (h, m, sec)
           | _ \<Rightarrow> None)
      | _ \<Rightarrow> None)"

text \<open>The exceptions that come from reading the text, not from the range checks.\<close>

fun is_parse_failure :: "exc \<Rightarrow> bool" where
  "is_parse_failure (IntLiteralError _) = True"
| "is_parse_failure (IntDigitLimit _) = True"
| "is_parse_failure (NotEnoughValues _) = True"
| "is_parse_failure TooManyValues = True"
| "is_parse_failure _ = False"

section \<open>Construction\<close>

subsection \<open>The number of digits\<close>

text \<open>
  A number has more than \<open>k\<close> digits exactly when it is at least \<open>10 ^ k\<close>, so the
  conversion of an integer to text is refused exactly from \<open>10 ^ 4300\<close> on.
\<close>

lemma nat_digits_length_pos: "0 < length (nat_digits n)"
  by (subst nat_digits.simps) simp

lemma nat_digits_length_gt: "10 ^ k \<le> n \<Longrightarrow> k < length (nat_digits n)"
proof (induction k arbitrary: n)
  case 0
  show ?case by (rule nat_digits_length_pos)
next
  case (Suc k)
  from Suc.prems have big: "10 * 10 ^ k \<le> n"
    by simp
  have "1 \<le> (10::nat) ^ k"
    by simp
  with big have "\<not> n < 10"
    by linarith
  moreover from big have "10 ^ k \<le> n div 10"
    by (simp add: less_eq_div_iff_mult_less_eq mult.commute)
  then have "k < length (nat_digits (n div 10))"
    by (rule Suc.IH)
  ultimately show ?case
    by (subst nat_digits.simps) simp
qed

lemma nat_digits_length_le: "n < 10 ^ Suc k \<Longrightarrow> length (nat_digits n) \<le> Suc k"
proof (induction k arbitrary: n)
  case 0
  then show ?case
    by (subst nat_digits.simps) simp
next
  case (Suc k)
  show ?case
  proof (cases "n < 10")
    case True
    then show ?thesis
      by (subst nat_digits.simps) simp
  next
    case False
    from Suc.prems have "n div 10 < 10 ^ Suc k"
      by (simp add: div_less_iff_less_mult mult.commute)
    then have "length (nat_digits (n div 10)) \<le> Suc k"
      by (rule Suc.IH)
    with False show ?thesis
      by (subst nat_digits.simps) simp
  qed
qed

lemma max_str_digits_Suc: "max_str_digits = Suc 4299"
  by (simp add: max_str_digits_def)

lemma num_digits_small:
  assumes "\<bar>v\<bar> < 10 ^ max_str_digits"
  shows "\<not> max_str_digits < num_digits v"
proof -
  from assms have "nat \<bar>v\<bar> < 10 ^ max_str_digits"
    by (simp add: nat_less_iff)
  then have "length (nat_digits (nat \<bar>v\<bar>)) \<le> max_str_digits"
    unfolding max_str_digits_Suc by (rule nat_digits_length_le)
  then show ?thesis
    by (simp add: num_digits_def)
qed

lemma num_digits_big:
  assumes "10 ^ max_str_digits \<le> \<bar>v\<bar>"
  shows "max_str_digits < num_digits v"
proof -
  from assms have "10 ^ max_str_digits \<le> nat \<bar>v\<bar>"
    by (simp add: le_nat_iff)
  then show ?thesis
    unfolding num_digits_def by (rule nat_digits_length_gt)
qed

lemma py_str_small: "\<bar>v\<bar> < 10 ^ max_str_digits \<Longrightarrow> py_str v = Inr (decimal v)"
  by (simp add: py_str_def num_digits_small)

lemma py_str_big: "10 ^ max_str_digits \<le> \<bar>v\<bar> \<Longrightarrow> py_str v = Inl StrDigitLimit"
  by (simp add: py_str_def num_digits_big)

lemma hundred_le_limit: "(100::int) \<le> 10 ^ max_str_digits"
proof -
  have "(10::int) ^ 2 \<le> 10 ^ max_str_digits"
    by (rule power_increasing) (simp_all add: max_str_digits_def)
  then show ?thesis by simp
qed

lemma below_limit: "\<bar>v :: int\<bar> < 100 \<Longrightarrow> \<bar>v\<bar> < 10 ^ max_str_digits"
  using hundred_le_limit by linarith

lemma beyond_limit_out_of_range:
  "10 ^ max_str_digits \<le> \<bar>v :: int\<bar> \<Longrightarrow> \<not> (0 \<le> v \<and> v \<le> 59)"
  using hundred_le_limit by linarith

subsection \<open>From components\<close>

lemma validate_range_ok: "lo \<le> v \<Longrightarrow> v \<le> hi \<Longrightarrow> validate_range v lo hi name = Inr ()"
  by (simp add: validate_range_def)

lemma Time_init_ok:
  assumes "0 \<le> h" "h \<le> 23" "0 \<le> m" "m \<le> 59" "0 \<le> s" "s \<le> 59"
  shows "Time_init h m s = Inr \<lparr>total_seconds = h * 3600 + m * 60 + s\<rparr>"
  using assms by (simp add: Time_init_def validate_range_ok)

lemma py_str_0: "py_str 0 = Inr ''0''"
  by code_simp

lemma py_str_23: "py_str 23 = Inr ''23''"
  by code_simp

lemma py_str_59: "py_str 59 = Inr ''59''"
  by code_simp

lemma validate_hours_fail:
  assumes "\<not> (0 \<le> v \<and> v \<le> 23)"
  shows "validate_range v 0 23 ''hours'' =
     (case py_str v of
        Inl e \<Rightarrow> Inl e
      | Inr got \<Rightarrow> Inl (ValueError (''hours must be between 0-23, got '' @ got) None))"
  using assms
  by (simp add: validate_range_def range_message_def py_str_0 py_str_23 split: sum.splits)

lemma validate_minutes_fail:
  assumes "\<not> (0 \<le> v \<and> v \<le> 59)"
  shows "validate_range v 0 59 ''minutes'' =
     (case py_str v of
        Inl e \<Rightarrow> Inl e
      | Inr got \<Rightarrow> Inl (ValueError (''minutes must be between 0-59, got '' @ got) None))"
  using assms
  by (simp add: validate_range_def range_message_def py_str_0 py_str_59 split: sum.splits)

lemma validate_seconds_fail:
  assumes "\<not> (0 \<le> v \<and> v \<le> 59)"
  shows "validate_range v 0 59 ''seconds'' =
     (case py_str v of
        Inl e \<Rightarrow> Inl e
      | Inr got \<Rightarrow> Inl (ValueError (''seconds must be between 0-59, got '' @ got) None))"
  using assms
  by (simp add: validate_range_def range_message_def py_str_0 py_str_59 split: sum.splits)

lemma Time_init_hours_fail:
  assumes "\<not> (0 \<le> h \<and> h \<le> 23)" "\<bar>h\<bar> < 10 ^ max_str_digits"
  shows "Time_init h m s =
     Inl (ValueError (''hours must be between 0-23, got '' @ decimal h) None)"
  unfolding Time_init_def validate_hours_fail [OF assms(1)] py_str_small [OF assms(2)]
  by simp

lemma Time_init_minutes_fail:
  assumes "0 \<le> h" "h \<le> 23" "\<not> (0 \<le> m \<and> m \<le> 59)" "\<bar>m\<bar> < 10 ^ max_str_digits"
  shows "Time_init h m s =
     Inl (ValueError (''minutes must be between 0-59, got '' @ decimal m) None)"
  unfolding Time_init_def validate_range_ok [OF assms(1,2)]
    validate_minutes_fail [OF assms(3)] py_str_small [OF assms(4)]
  by simp



lemma Time_init_minutes_limit:
  assumes "0 \<le> h" "h \<le> 23" "10 ^ max_str_digits \<le> \<bar>m\<bar>"
  shows "Time_init h m s = Inl StrDigitLimit"
  unfolding Time_init_def validate_range_ok [OF assms(1,2)]
  by (simp add: validate_minutes_fail [OF beyond_limit_out_of_range [OF assms(3)]]
      py_str_big [OF assms(3)])

lemma Time_init_seconds_limit:
  assumes "0 \<le> h" "h \<le> 23" "0 \<le> m" "m \<le> 59" "10 ^ max_str_digits \<le> \<bar>s\<bar>"
  shows "Time_init h m s = Inl StrDigitLimit"
  unfolding Time_init_def validate_range_ok [OF assms(1,2)] validate_range_ok [OF assms(3,4)]
  by (simp add: validate_seconds_fail [OF beyond_limit_out_of_range [OF assms(5)]]
      py_str_big [OF assms(5)])

lemma validate_range_error:
  "validate_range v lo hi name = Inl e \<Longrightarrow>
     e = StrDigitLimit \<or> (\<exists>msg. e = ValueError msg None)"
  by (auto simp add: validate_range_def range_message_def py_str_def
      split: if_splits sum.splits)

lemma Time_init_error_form:
  assumes "Time_init h m s = Inl e"
  shows "e = StrDigitLimit \<or> (\<exists>msg. e = ValueError msg None)"
  using assms unfolding Time_init_def
  by (auto split: sum.splits dest: validate_range_error)

lemma Time_init_Inr_iff:
  "(\<exists>t. Time_init h m s = Inr t) \<longleftrightarrow>
     0 \<le> h \<and> h \<le> 23 \<and> 0 \<le> m \<and> m \<le> 59 \<and> 0 \<le> s \<and> s \<le> 59"
proof
  assume "\<exists>t. Time_init h m s = Inr t"
  then show "0 \<le> h \<and> h \<le> 23 \<and> 0 \<le> m \<and> m \<le> 59 \<and> 0 \<le> s \<and> s \<le> 59"
    unfolding Time_init_def validate_range_def
    by (auto split: if_splits sum.splits)
next
  assume "0 \<le> h \<and> h \<le> 23 \<and> 0 \<le> m \<and> m \<le> 59 \<and> 0 \<le> s \<and> s \<le> 59"
  then show "\<exists>t. Time_init h m s = Inr t"
    by (simp add: Time_init_ok)
qed


lemma decimal_24: "decimal 24 = ''24''"
  by code_simp

lemma decimal_60: "decimal 60 = ''60''"
  by code_simp


lemma small_below_limit: "v < 100 \<Longrightarrow> (v :: int) < 10 ^ max_str_digits"
  using hundred_le_limit by linarith




subsection \<open>From a number of seconds\<close>

lemma from_seconds_ok:
  assumes "0 \<le> x" "x < 86400"
  shows "from_seconds x = Inr \<lparr>total_seconds = x\<rparr>"
proof -
  have h: "0 \<le> x div 3600" "x div 3600 \<le> 23"
    using assms by auto
  have m: "0 \<le> (x mod 3600) div 60" "(x mod 3600) div 60 \<le> 59"
    by auto
  have s: "0 \<le> x mod 60" "x mod 60 \<le> 59"
    by auto
  have "x mod 3600 = ((x mod 3600) div 60) * 60 + (x mod 3600) mod 60"
    by simp
  moreover have "(x mod 3600) mod 60 = x mod 60"
    by (simp add: mod_mod_cancel)
  moreover have "x = (x div 3600) * 3600 + x mod 3600"
    by simp
  ultimately have sum: "x div 3600 * 3600 + (x mod 3600) div 60 * 60 + x mod 60 = x"
    by linarith
  show ?thesis
    using assms Time_init_ok [OF h m s] sum by (simp add: from_seconds_def)
qed

lemma from_seconds_fail:
  "\<not> (0 \<le> x \<and> x < 86400) \<Longrightarrow>
     from_seconds x =
       Inl (ValueError ''Total seconds must represent a valid 24-hour time (0-86399)'' None)"
  by (simp add: from_seconds_def)

text \<open>
  Claim C3. \<open>from_seconds(x)\<close> succeeds exactly when \<open>0 \<le> x < 86400\<close>; the result then
  holds exactly \<open>x\<close> seconds and its components are
  \<open>(x // 3600, (x % 3600) // 60, x % 60)\<close>. Otherwise it raises a \<open>ValueError\<close>.
\<close>

theorem from_seconds_spec:
  "(0 \<le> x \<and> x < 86400 \<longrightarrow>
      (\<exists>t. from_seconds x = Inr t \<and> to_seconds t = x
           \<and> to_tuple t = (x div 3600, (x mod 3600) div 60, x mod 60)))
   \<and> (\<not> (0 \<le> x \<and> x < 86400) \<longrightarrow>
      from_seconds x =
        Inl (ValueError ''Total seconds must represent a valid 24-hour time (0-86399)'' None))"
  using from_seconds_ok [of x] from_seconds_fail [of x]
  by (auto simp add: to_seconds_def to_tuple_def hours_def minutes_def seconds_def)

theorem from_seconds_spec_witness:
  "(\<exists>t. from_seconds 3661 = Inr t \<and> to_seconds t = 3661 \<and> to_tuple t = (1, 1, 1))
   \<and> from_seconds 86400 =
        Inl (ValueError ''Total seconds must represent a valid 24-hour time (0-86399)'' None)
   \<and> from_seconds (- 1) =
        Inl (ValueError ''Total seconds must represent a valid 24-hour time (0-86399)'' None)"
  using from_seconds_spec [of 3661] from_seconds_spec [of 86400] from_seconds_spec [of "- 1"]
  by simp

subsection \<open>Without arguments\<close>

text \<open>
  Claim C10. \<open>Time()\<close>, every component left to its default, succeeds and is midnight:
  0 seconds, components \<open>(0, 0, 0)\<close>, printed as \<open>00:00:00\<close>.
\<close>

theorem Time_call_default:
  "\<exists>t. Time_call None None None = Inr t \<and> total_seconds t = 0 \<and> to_tuple t = (0, 0, 0)
       \<and> Time_str t = Inr ''00:00:00''"
proof -
  have "Time_call None None None = Inr \<lparr>total_seconds = 0\<rparr>"
    by (simp add: Time_call_def Time_init_ok)
  moreover have "to_tuple \<lparr>total_seconds = 0\<rparr> = (0, 0, 0)"
    by (simp add: to_tuple_def hours_def minutes_def seconds_def)
  moreover have "Time_str \<lparr>total_seconds = 0\<rparr> = Inr ''00:00:00''"
    by code_simp
  ultimately show ?thesis by simp
qed

section \<open>The invariant\<close>

text \<open>Every way of making a \<open>Time\<close> yields a second of the day.\<close>

lemma from_seconds_mod:
  "from_seconds (x mod 86400) = Inr \<lparr>total_seconds = x mod 86400\<rparr>"
  by (rule from_seconds_ok) simp_all

lemma valid_mod: "valid \<lparr>total_seconds = x mod 86400\<rparr>"
  by (simp add: valid_def)

lemma Time_init_valid:
  assumes "Time_init h m s = Inr t"
  shows "valid t"
proof -
  from assms have r: "0 \<le> h \<and> h \<le> 23 \<and> 0 \<le> m \<and> m \<le> 59 \<and> 0 \<le> s \<and> s \<le> 59"
    using Time_init_Inr_iff [of h m s] by blast
  with assms have "t = \<lparr>total_seconds = h * 3600 + m * 60 + s\<rparr>"
    by (simp add: Time_init_ok)
  with r show ?thesis
    by (simp add: valid_def)
qed

lemma from_seconds_valid: "from_seconds x = Inr t \<Longrightarrow> valid t"
  unfolding from_seconds_def by (auto split: if_splits dest: Time_init_valid)

lemma from_string_valid: "from_string s = Inr t \<Longrightarrow> valid t"
  unfolding from_string_def Let_def
  by (auto split: sum.splits if_splits prod.splits dest: Time_init_valid)

lemma Time_add_valid: "Time_add t v = Inr r \<Longrightarrow> valid r"
  unfolding Time_add_def by (auto split: pyval.splits dest: from_seconds_valid)

lemma Time_sub_valid: "Time_sub t v = Inr r \<Longrightarrow> valid r"
  unfolding Time_sub_def by (auto split: pyval.splits dest: from_seconds_valid)

section \<open>Arithmetic\<close>

lemma Time_add_Time:
  "Time_add t (TimeV u) = Inr \<lparr>total_seconds = (total_seconds t + total_seconds u) mod 86400\<rparr>"
  by (simp add: Time_add_def from_seconds_mod)

lemma Time_add_int:
  "Time_add t (IntV n) = Inr \<lparr>total_seconds = (total_seconds t + n) mod 86400\<rparr>"
  by (simp add: Time_add_def from_seconds_mod)

lemma Time_sub_Time:
  "Time_sub t (TimeV u) = Inr \<lparr>total_seconds = (total_seconds t - total_seconds u) mod 86400\<rparr>"
  by (simp add: Time_sub_def from_seconds_mod)

lemma Time_sub_int:
  "Time_sub t (IntV n) = Inr \<lparr>total_seconds = (total_seconds t - n) mod 86400\<rparr>"
  by (simp add: Time_sub_def from_seconds_mod)

lemma op_eq_Time: "op_eq a (TimeV b) = Inr (total_seconds a = total_seconds b)"
  by (simp add: op_eq_def Time_eq_def)

lemma op_ne_Time: "op_ne a (TimeV b) = Inr (total_seconds a \<noteq> total_seconds b)"
  by (simp add: op_ne_def Time_eq_def)

text \<open>
  Claim C4. For a \<open>Time\<close> \<open>t\<close> and an operand that is a \<open>Time\<close> or an integer, \<open>t + o\<close>
  always succeeds, and the result holds \<open>(total_seconds + o_seconds) mod 86400\<close> seconds,
  where \<open>o_seconds\<close> is the operand's seconds or the integer itself; so 23:59:59 plus
  00:00:01 equals 00:00:00.
\<close>

theorem Time_add_spec:
  "(\<exists>r. Time_add t (TimeV u) = Inr r
        \<and> total_seconds r = (total_seconds t + total_seconds u) mod 86400 \<and> valid r)
   \<and> (\<exists>r. Time_add t (IntV n) = Inr r
        \<and> total_seconds r = (total_seconds t + n) mod 86400 \<and> valid r)
   \<and> (\<exists>a b c r. Time_init 23 59 59 = Inr a \<and> Time_init 0 0 1 = Inr b
        \<and> Time_add a (TimeV b) = Inr r \<and> Time_init 0 0 0 = Inr c
        \<and> op_eq r (TimeV c) = Inr True)"
proof (intro conjI)
  show "\<exists>r. Time_add t (TimeV u) = Inr r
          \<and> total_seconds r = (total_seconds t + total_seconds u) mod 86400 \<and> valid r"
    by (simp add: Time_add_Time valid_mod)
  show "\<exists>r. Time_add t (IntV n) = Inr r
          \<and> total_seconds r = (total_seconds t + n) mod 86400 \<and> valid r"
    by (simp add: Time_add_int valid_mod)
  show "\<exists>a b c r. Time_init 23 59 59 = Inr a \<and> Time_init 0 0 1 = Inr b
          \<and> Time_add a (TimeV b) = Inr r \<and> Time_init 0 0 0 = Inr c
          \<and> op_eq r (TimeV c) = Inr True"
    by (simp add: Time_init_ok Time_add_Time op_eq_Time)
qed

text \<open>
  Claim C5. For a \<open>Time\<close> \<open>t\<close> and an operand that is a \<open>Time\<close> or an integer, \<open>t - o\<close>
  holds \<open>(total_seconds - o_seconds) mod 86400\<close> seconds with the floored modulo, so the
  result is never negative and below 86400 also when the operand is the larger; so
  00:00:00 minus 00:00:01 equals 23:59:59.
\<close>

theorem Time_sub_spec:
  "(\<exists>r. Time_sub t (TimeV u) = Inr r
        \<and> total_seconds r = (total_seconds t - total_seconds u) mod 86400
        \<and> 0 \<le> total_seconds r \<and> total_seconds r < 86400)
   \<and> (\<exists>r. Time_sub t (IntV n) = Inr r
        \<and> total_seconds r = (total_seconds t - n) mod 86400
        \<and> 0 \<le> total_seconds r \<and> total_seconds r < 86400)
   \<and> (\<exists>a b c r. Time_init 0 0 0 = Inr a \<and> Time_init 0 0 1 = Inr b
        \<and> Time_sub a (TimeV b) = Inr r \<and> Time_init 23 59 59 = Inr c
        \<and> op_eq r (TimeV c) = Inr True)"
proof (intro conjI)
  show "\<exists>r. Time_sub t (TimeV u) = Inr r
          \<and> total_seconds r = (total_seconds t - total_seconds u) mod 86400
          \<and> 0 \<le> total_seconds r \<and> total_seconds r < 86400"
    by (simp add: Time_sub_Time)
  show "\<exists>r. Time_sub t (IntV n) = Inr r
          \<and> total_seconds r = (total_seconds t - n) mod 86400
          \<and> 0 \<le> total_seconds r \<and> total_seconds r < 86400"
    by (simp add: Time_sub_int)
  show "\<exists>a b c r. Time_init 0 0 0 = Inr a \<and> Time_init 0 0 1 = Inr b
          \<and> Time_sub a (TimeV b) = Inr r \<and> Time_init 23 59 59 = Inr c
          \<and> op_eq r (TimeV c) = Inr True"
    by (simp add: Time_init_ok Time_sub_Time op_eq_Time)
qed

section \<open>Comparison\<close>

lemma Time_eq_other: "Time_eq a (IntV n) = NotImplemented" "Time_eq a (OtherV ty f) = NotImplemented"
  by (simp_all add: Time_eq_def)

lemma op_eq_int: "op_eq a (IntV n) = Inr False"
  by (simp add: op_eq_def Time_eq_def reflected_def)

lemma op_eq_other:
  "op_eq a (OtherV ty f) =
     (case f Meth_eq of Answers b \<Rightarrow> Inr b | Raises e \<Rightarrow> Inl e | Declines \<Rightarrow> Inr False)"
  by (simp add: op_eq_def Time_eq_def reflected_def)

text \<open>
  Claim C8, as amended. Two \<open>Time\<close>s are equal exactly when their seconds are equal.
  For a value that is not a \<open>Time\<close>, \<open>__eq__\<close> of \<open>Time\<close> hands back \<open>NotImplemented\<close>
  and raises nothing; \<open>==\<close> is then false when the equality of the value declines as well,
  as that of an integer does, and otherwise is what the equality of the value answers or
  raises.
\<close>

theorem Time_eq_spec:
  "Time_eq a (TimeV b) = Result (total_seconds a = total_seconds b)
   \<and> op_eq a (TimeV b) = Inr (total_seconds a = total_seconds b)
   \<and> Time_eq a (IntV n) = NotImplemented \<and> op_eq a (IntV n) = Inr False
   \<and> Time_eq a (OtherV ty f) = NotImplemented
   \<and> (f Meth_eq = Declines \<longrightarrow> op_eq a (OtherV ty f) = Inr False)
   \<and> (\<forall>r. f Meth_eq = Answers r \<longrightarrow> op_eq a (OtherV ty f) = Inr r)
   \<and> (\<forall>e. f Meth_eq = Raises e \<longrightarrow> op_eq a (OtherV ty f) = Inl e)"
  by (simp add: Time_eq_def op_eq_Time op_eq_int op_eq_other)

theorem Time_eq_spec_witness:
  "declining Meth_eq = Declines
   \<and> op_eq \<lparr>total_seconds = 5\<rparr> (OtherV ''str'' declining) = Inr False
   \<and> op_eq \<lparr>total_seconds = 5\<rparr> (OtherV ''Never'' (\<lambda>m. Answers False)) = Inr False
   \<and> op_eq \<lparr>total_seconds = 5\<rparr> (OtherV ''Strict'' (\<lambda>m. Raises (TypeError ''no Time'')))
        = Inl (TypeError ''no Time'')"
  using Time_eq_spec [of "\<lparr>total_seconds = 5\<rparr>" _ _ "''str''" declining]
    Time_eq_spec [of "\<lparr>total_seconds = 5\<rparr>" _ _ "''Never''" "\<lambda>m. Answers False"]
    Time_eq_spec [of "\<lparr>total_seconds = 5\<rparr>" _ _ "''Strict''" "\<lambda>m. Raises (TypeError ''no Time'')"]
  by (auto simp add: declining_def)

text \<open>
  So \<open>==\<close> with a value that is not a \<open>Time\<close> is not always false and can raise: an
  operand whose \<open>__eq__\<close> answers true to everything, as \<open>unittest.mock.ANY\<close> does,
  compares equal to a \<open>Time\<close>, and an operand whose \<open>__eq__\<close> raises makes \<open>==\<close> raise.
\<close>

theorem op_eq_foreign_counterexample:
  "Time_eq \<lparr>total_seconds = 0\<rparr>
       (OtherV ''_ANY'' (\<lambda>m. if m = Meth_eq then Answers True
                            else if m = Meth_ne then Answers False else Declines))
     = NotImplemented
   \<and> op_eq \<lparr>total_seconds = 0\<rparr>
       (OtherV ''_ANY'' (\<lambda>m. if m = Meth_eq then Answers True
                            else if m = Meth_ne then Answers False else Declines))
     = Inr True
   \<and> op_eq \<lparr>total_seconds = 0\<rparr>
       (OtherV ''Strict'' (\<lambda>m. Raises (TypeError ''cannot compare'')))
     = Inl (TypeError ''cannot compare'')"
  by (simp add: Time_eq_def op_eq_def reflected_def)

lemma Time_methods_Time:
  "Time_lt a (TimeV b) = Result (total_seconds a < total_seconds b)"
  "Time_le a (TimeV b) = Inr (Result (total_seconds a \<le> total_seconds b))"
  "Time_gt a (TimeV b) = Inr (Result (total_seconds a > total_seconds b))"
  "Time_ge a (TimeV b) = Inr (Result (total_seconds a \<ge> total_seconds b))"
  by (auto simp add: Time_lt_def Time_le_def Time_gt_def Time_ge_def op_eq_Time op_ne_Time)

lemma Time_methods_other:
  "\<forall>u. v \<noteq> TimeV u \<Longrightarrow> Time_lt a v = NotImplemented \<and> Time_le a v = Inr NotImplemented
     \<and> Time_gt a v = Inr NotImplemented \<and> Time_ge a v = Inr NotImplemented"
  by (cases v) (simp_all add: Time_lt_def Time_le_def Time_gt_def Time_ge_def)

lemma op_lt_linear:
  "op_lt a (TimeV b) = Inr True \<or> a = b \<or> op_lt b (TimeV a) = Inr True"
  by (auto simp add: op_lt_def op_order_def Time_methods_Time)

lemma op_lt_trans:
  "op_lt a (TimeV b) = Inr True \<Longrightarrow> op_lt b (TimeV c) = Inr True \<Longrightarrow> op_lt a (TimeV c) = Inr True"
  by (simp add: op_lt_def op_order_def Time_methods_Time)

lemma op_lt_irrefl: "op_lt a (TimeV a) = Inr False"
  by (simp add: op_lt_def op_order_def Time_methods_Time)

text \<open>
  Claim C9. The order on \<open>Time\<close> is the order of the seconds: \<open>a < b\<close> exactly when
  \<open>a\<close> holds fewer seconds than \<open>b\<close>, and \<open>\<le>\<close>, \<open>>\<close>, \<open>\<ge>\<close> agree with it. Against a value
  that is not a \<open>Time\<close> each of the four methods hands back \<open>NotImplemented\<close>, the
  signal of an unsupported comparison; with an integer, or another operand that declines
  as well, the operator raises \<open>TypeError\<close> and yields no truth value.
\<close>

theorem Time_order_spec:
  "op_lt a (TimeV b) = Inr (total_seconds a < total_seconds b)
   \<and> op_le a (TimeV b) = Inr (total_seconds a \<le> total_seconds b)
   \<and> op_gt a (TimeV b) = Inr (total_seconds a > total_seconds b)
   \<and> op_ge a (TimeV b) = Inr (total_seconds a \<ge> total_seconds b)
   \<and> Time_lt a (IntV n) = NotImplemented \<and> Time_lt a (OtherV ty f) = NotImplemented
   \<and> Time_le a (IntV n) = Inr NotImplemented \<and> Time_le a (OtherV ty f) = Inr NotImplemented
   \<and> Time_gt a (IntV n) = Inr NotImplemented \<and> Time_gt a (OtherV ty f) = Inr NotImplemented
   \<and> Time_ge a (IntV n) = Inr NotImplemented \<and> Time_ge a (OtherV ty f) = Inr NotImplemented
   \<and> is_TypeError (op_lt a (IntV n)) \<and> is_TypeError (op_lt a (OtherV ty declining))
   \<and> is_TypeError (op_le a (IntV n)) \<and> is_TypeError (op_le a (OtherV ty declining))
   \<and> is_TypeError (op_gt a (IntV n)) \<and> is_TypeError (op_gt a (OtherV ty declining))
   \<and> is_TypeError (op_ge a (IntV n)) \<and> is_TypeError (op_ge a (OtherV ty declining))"
  using Time_methods_other [of "IntV n" a] Time_methods_other [of "OtherV ty f" a]
    Time_methods_other [of "OtherV ty declining" a]
  by (simp add: op_lt_def op_le_def op_gt_def op_ge_def op_order_def Time_methods_Time
      is_TypeError_def reflected_def declining_def)

section \<open>Text\<close>

subsection \<open>Printing\<close>

lemma digit_char_is_digit: "n < 10 \<Longrightarrow> is_digit (digit_char n)"
  by (simp add: digit_char_def is_digit_def)

lemma digit_val_digit_char: "n < 10 \<Longrightarrow> digit_val (digit_char n) = int n"
  by (simp add: digit_char_def digit_val_def)

lemma digit_char_0: "digit_char 0 = CHR ''0''"
  by code_simp

lemma is_digit_not_space: "is_digit c \<Longrightarrow> \<not> is_space c"
  by (simp add: is_digit_def is_space_def)

lemma is_digit_not_sign: "is_digit c \<Longrightarrow> c \<noteq> CHR ''+'' \<and> c \<noteq> CHR ''-'' \<and> c \<noteq> CHR '':''"
  by (auto simp add: is_digit_def)

lemma nat_digits_small: "k < 10 \<Longrightarrow> nat_digits k = [digit_char k]"
  by (simp add: nat_digits.simps)

lemma nat_digits_two:
  "10 \<le> k \<Longrightarrow> k < 100 \<Longrightarrow> nat_digits k = [digit_char (k div 10), digit_char (k mod 10)]"
  by (subst nat_digits.simps) (simp add: nat_digits_small)

lemma format_02d_two:
  assumes "0 \<le> n" "n < 100"
  shows "format_02d n = Inr [digit_char (nat n div 10), digit_char (nat n mod 10)]"
proof (cases "nat n < 10")
  case True
  then show ?thesis
    using assms
    by (simp add: format_02d_def nat_digits_small digit_char_0 max_str_digits_def)
next
  case False
  then show ?thesis
    using assms by (simp add: format_02d_def nat_digits_two max_str_digits_def)
qed

lemma components_range:
  assumes "valid t"
  shows "0 \<le> hours t" "hours t \<le> 23" "0 \<le> minutes t" "minutes t \<le> 59"
    "0 \<le> seconds t" "seconds t \<le> 59"
  using assms by (auto simp add: valid_def hours_def minutes_def seconds_def)

lemma Time_str_digits:
  assumes "valid t"
  shows "Time_str t =
     Inr [digit_char (nat (hours t) div 10), digit_char (nat (hours t) mod 10), CHR '':'',
          digit_char (nat (minutes t) div 10), digit_char (nat (minutes t) mod 10), CHR '':'',
          digit_char (nat (seconds t) div 10), digit_char (nat (seconds t) mod 10)]"
  using components_range [OF assms] by (simp add: Time_str_def format_02d_two)

lemma two_digits_value:
  assumes "0 \<le> n" "n < 100"
  shows "is_digit (digit_char (nat n div 10))" "is_digit (digit_char (nat n mod 10))"
    "digit_val (digit_char (nat n div 10)) * 10 + digit_val (digit_char (nat n mod 10)) = n"
proof -
  have d: "nat n div 10 < 10" "nat n mod 10 < 10"
    using assms by auto
  show "is_digit (digit_char (nat n div 10))" "is_digit (digit_char (nat n mod 10))"
    using d by (simp_all add: digit_char_is_digit)
  have "int (nat n div 10) * 10 + int (nat n mod 10) = int (nat n)"
    by (simp add: zdiv_int zmod_int)
  then show "digit_val (digit_char (nat n div 10)) * 10 + digit_val (digit_char (nat n mod 10)) = n"
    using d assms by (simp add: digit_val_digit_char)
qed

text \<open>
  Claim C6. For a \<open>Time\<close> that satisfies the invariant, \<open>str\<close> is exactly \<open>HH:MM:SS\<close>: three
  fields of exactly two decimal digits each, whose values are the hours, minutes and seconds;
  3661 seconds print as \<open>01:01:01\<close>.
\<close>

theorem Time_str_spec:
  "(valid t \<longrightarrow>
      (\<exists>h1 h0 m1 m0 s1 s0.
         Time_str t = Inr [h1, h0, CHR '':'', m1, m0, CHR '':'', s1, s0]
         \<and> is_digit h1 \<and> is_digit h0 \<and> digit_val h1 * 10 + digit_val h0 = hours t
         \<and> is_digit m1 \<and> is_digit m0 \<and> digit_val m1 * 10 + digit_val m0 = minutes t
         \<and> is_digit s1 \<and> is_digit s0 \<and> digit_val s1 * 10 + digit_val s0 = seconds t))
   \<and> Time_str \<lparr>total_seconds = 3661\<rparr> = Inr ''01:01:01''"
proof (intro conjI impI)
  assume v: "valid t"
  note r = components_range [OF v]
  have "hours t < 100" "minutes t < 100" "seconds t < 100"
    using r by simp_all
  then show "\<exists>h1 h0 m1 m0 s1 s0.
         Time_str t = Inr [h1, h0, CHR '':'', m1, m0, CHR '':'', s1, s0]
         \<and> is_digit h1 \<and> is_digit h0 \<and> digit_val h1 * 10 + digit_val h0 = hours t
         \<and> is_digit m1 \<and> is_digit m0 \<and> digit_val m1 * 10 + digit_val m0 = minutes t
         \<and> is_digit s1 \<and> is_digit s0 \<and> digit_val s1 * 10 + digit_val s0 = seconds t"
    using r by (simp add: Time_str_digits [OF v] two_digits_value)
next
  show "Time_str \<lparr>total_seconds = 3661\<rparr> = Inr ''01:01:01''"
    by code_simp
qed

theorem Time_str_spec_witness:
  "valid \<lparr>total_seconds = 45296\<rparr> \<and>
   (\<exists>h1 h0 m1 m0 s1 s0.
      Time_str \<lparr>total_seconds = 45296\<rparr> = Inr [h1, h0, CHR '':'', m1, m0, CHR '':'', s1, s0]
      \<and> is_digit h1 \<and> is_digit h0 \<and> digit_val h1 * 10 + digit_val h0 = 12
      \<and> is_digit m1 \<and> is_digit m0 \<and> digit_val m1 * 10 + digit_val m0 = 34
      \<and> is_digit s1 \<and> is_digit s0 \<and> digit_val s1 * 10 + digit_val s0 = 56)"
proof -
  have v: "valid \<lparr>total_seconds = 45296\<rparr>"
    by (simp add: valid_def)
  show ?thesis
    using v Time_str_spec [of "\<lparr>total_seconds = 45296\<rparr>"]
    by (simp add: hours_def minutes_def seconds_def)
qed

subsection \<open>Printing, then parsing\<close>

lemma py_int_two_digits:
  assumes "is_digit a" "is_digit b"
  shows "py_int [a, b] = Inr (digit_val a * 10 + digit_val b)"
  using assms is_digit_not_sign [of a]
  by (simp add: py_int_def is_digit_not_space is_run_char_def unsigned_int_def
      max_str_digits_def)

lemma split_on_str:
  assumes "is_digit h1" "is_digit h0" "is_digit m1" "is_digit m0" "is_digit s1" "is_digit s0"
  shows "split_on CHR '':'' [h1, h0, CHR '':'', m1, m0, CHR '':'', s1, s0]
           = [[h1, h0], [m1, m0], [s1, s0]]"
  using assms [THEN is_digit_not_sign] by simp

lemma Time_init_error:
  assumes "Time_init h m sec = Inl e"
  shows "is_ValueError e \<and> \<not> is_parse_failure e"
  using Time_init_error_form [OF assms] by auto

lemma from_string_digits:
  assumes "is_digit h1" "is_digit h0" "is_digit m1" "is_digit m0" "is_digit s1" "is_digit s0"
  shows "from_string [h1, h0, CHR '':'', m1, m0, CHR '':'', s1, s0]
           = (case Time_init (digit_val h1 * 10 + digit_val h0) (digit_val m1 * 10 + digit_val m0)
                     (digit_val s1 * 10 + digit_val s0) of
                Inl e \<Rightarrow> Inl (ValueError format_message (Some e)) | Inr t \<Rightarrow> Inr t)"
proof -
  have "unpack3_map_int [[h1, h0], [m1, m0], [s1, s0]]
          = Inr (digit_val h1 * 10 + digit_val h0, digit_val m1 * 10 + digit_val m0,
                 digit_val s1 * 10 + digit_val s0)"
    using assms by (simp add: unpack3_map_int_def py_int_two_digits)
  then show ?thesis
    unfolding from_string_def split_on_str [OF assms]
    by (simp add: Time_init_error split: sum.splits)
qed

lemma Time_init_components:
  assumes "valid t"
  shows "Time_init (hours t) (minutes t) (seconds t) = Inr t"
proof -
  have "from_seconds (total_seconds t) = Inr \<lparr>total_seconds = total_seconds t\<rparr>"
    using assms by (simp add: from_seconds_ok valid_def)
  then show ?thesis
    using assms by (simp add: from_seconds_def valid_def hours_def minutes_def seconds_def)
qed

text \<open>
  Claim C7. For a \<open>Time\<close> \<open>t\<close> that satisfies the invariant, \<open>from_string(str(t))\<close> succeeds
  and equals \<open>t\<close>.
\<close>

theorem from_string_Time_str:
  "valid t \<longrightarrow>
     (\<exists>txt r. Time_str t = Inr txt \<and> from_string txt = Inr r \<and> r = t
        \<and> op_eq r (TimeV t) = Inr True)"
proof
  assume v: "valid t"
  note r = components_range [OF v]
  have lt: "hours t < 100" "minutes t < 100" "seconds t < 100"
    using r by simp_all
  let ?txt = "[digit_char (nat (hours t) div 10), digit_char (nat (hours t) mod 10), CHR '':'',
      digit_char (nat (minutes t) div 10), digit_char (nat (minutes t) mod 10), CHR '':'',
      digit_char (nat (seconds t) div 10), digit_char (nat (seconds t) mod 10)]"
  have "from_string ?txt = Inr t"
    using r lt v
    by (subst from_string_digits) (simp_all add: two_digits_value Time_init_components)
  then show "\<exists>txt r. Time_str t = Inr txt \<and> from_string txt = Inr r \<and> r = t
        \<and> op_eq r (TimeV t) = Inr True"
    by (simp add: Time_str_digits [OF v] op_eq_Time)
qed

theorem from_string_Time_str_witness:
  "valid \<lparr>total_seconds = 3661\<rparr>
   \<and> Time_str \<lparr>total_seconds = 3661\<rparr> = Inr ''01:01:01''
   \<and> from_string ''01:01:01'' = Inr \<lparr>total_seconds = 3661\<rparr>"
proof -
  have v: "valid \<lparr>total_seconds = 3661\<rparr>"
    by (simp add: valid_def)
  have s: "Time_str \<lparr>total_seconds = 3661\<rparr> = Inr ''01:01:01''"
    by code_simp
  show ?thesis
    using v s from_string_Time_str [of "\<lparr>total_seconds = 3661\<rparr>"] by simp
qed

subsection \<open>Parsing\<close>

lemma py_int_error_aux:
  "(case u of None \<Rightarrow> Inl (IntLiteralError s)
    | Some v \<Rightarrow> if c1 then Inl (IntDigitLimit n)
               else if c2 then Inl (IntLiteralError s) else Inr (g v)) = Inl e
   \<Longrightarrow> is_parse_failure e"
  by (auto split: option.splits if_splits)

lemma py_int_error: "py_int f = Inl e \<Longrightarrow> is_parse_failure e"
  unfolding py_int_def Let_def by (rule py_int_error_aux)

lemma unpack3_error:
  assumes "unpack3_map_int fs = Inl e"
  shows "is_parse_failure e"
  using assms unfolding unpack3_map_int_def
  by (auto split: list.splits sum.splits dest: py_int_error)

lemma unpack3_result:
  "unpack3_map_int fs = Inr (h, m, sec) \<longleftrightarrow>
     (\<exists>f1 f2 f3. fs = [f1, f2, f3] \<and> py_int f1 = Inr h \<and> py_int f2 = Inr m \<and> py_int f3 = Inr sec)"
  unfolding unpack3_map_int_def
  by (auto split: list.splits sum.splits)

lemma parsed_fields_Some:
  "parsed_fields s = Some (h, m, sec) \<longleftrightarrow> unpack3_map_int (split_on CHR '':'' s) = Inr (h, m, sec)"
  unfolding unpack3_result parsed_fields_def
  by (auto split: list.splits sum.splits)

lemma parsed_fields_None:
  assumes "parsed_fields s = None"
  shows "\<exists>e. unpack3_map_int (split_on CHR '':'' s) = Inl e"
proof (cases "unpack3_map_int (split_on CHR '':'' s)")
  case (Inl e)
  then show ?thesis by blast
next
  case (Inr r)
  obtain h m sec where "r = (h, m, sec)"
    by (cases r) auto
  with Inr assms show ?thesis
    by (simp add: parsed_fields_Some [symmetric])
qed

lemma is_parse_failure_ValueError: "is_parse_failure e \<Longrightarrow> is_ValueError e"
  by (cases e) simp_all

lemma from_string_malformed:
  assumes "parsed_fields s = None"
  shows "\<exists>c. from_string s = Inl (ValueError format_message (Some c)) \<and> is_parse_failure c"
proof -
  from parsed_fields_None [OF assms]
  obtain e where e: "unpack3_map_int (split_on CHR '':'' s) = Inl e" ..
  then have "is_parse_failure e"
    by (rule unpack3_error)
  with e show ?thesis
    by (simp add: from_string_def is_parse_failure_ValueError)
qed

lemma from_string_out_of_range:
  assumes "parsed_fields s = Some (h, m, sec)" "Time_init h m sec = Inl e"
  shows "from_string s = Inl (ValueError format_message (Some e)) \<and> \<not> is_parse_failure e"
  using assms Time_init_error [OF assms(2)]
  by (simp add: from_string_def parsed_fields_Some)

lemma from_string_ok:
  assumes "parsed_fields s = Some (h, m, sec)" "Time_init h m sec = Inr t"
  shows "from_string s = Inr t"
  using assms by (simp add: from_string_def parsed_fields_Some)

lemma Time_init_0_60_0:
  "Time_init 0 60 0 = Inl (ValueError ''minutes must be between 0-59, got 60'' None)"
  using Time_init_minutes_fail [of 0 60 0] small_below_limit [of 60]
  by (simp add: decimal_60)

lemma Time_init_24_0_0:
  "Time_init 24 0 0 = Inl (ValueError ''hours must be between 0-23, got 24'' None)"
  using Time_init_hours_fail [of 24 0 0] small_below_limit [of 24]
  by (simp add: decimal_24)

text \<open>
  An integer that \<open>int()\<close> has read has no more digits than the text it was read from, so
  the constructor can format every value that \<open>from_string\<close> hands to it: the cause of
  the error for a field out of range is always the range error.
\<close>

lemma digit_val_range: "is_digit c \<Longrightarrow> 0 \<le> digit_val c \<and> digit_val c \<le> 9"
  by (auto simp add: is_digit_def digit_val_def)

lemma underscore_no_digit: "\<not> is_digit CHR ''_''"
  by (simp add: is_digit_def)

lemma append_digit_bound:
  assumes "0 \<le> acc" "acc < 10 ^ k" "0 \<le> d" "d \<le> 9"
  shows "0 \<le> acc * 10 + d \<and> acc * 10 + d < (10::int) ^ Suc k"
  using assms by simp

lemma int_digits_bound:
  "int_digits acc cs = Some v \<Longrightarrow> 0 \<le> acc \<Longrightarrow> acc < 10 ^ k \<Longrightarrow>
     0 \<le> v \<and> v < 10 ^ (k + length (filter is_digit cs))"
proof (induction acc cs arbitrary: k rule: int_digits.induct)
  case (1 acc)
  then show ?case by simp
next
  case (2 acc c)
  then show ?case
    using append_digit_bound [of acc k "digit_val c"] digit_val_range [of c]
    by (simp split: if_splits)
next
  case (3 acc c d cs)
  show ?case
  proof (cases "is_digit c")
    case True
    with "3.prems" have "int_digits (acc * 10 + digit_val c) (d # cs) = Some v"
      by simp
    moreover have "0 \<le> acc * 10 + digit_val c \<and> acc * 10 + digit_val c < 10 ^ Suc k"
      using "3.prems" digit_val_range [OF True] by (intro append_digit_bound) simp_all
    ultimately have "0 \<le> v \<and> v < 10 ^ (Suc k + length (filter is_digit (d # cs)))"
      using "3.IH"(1) [OF True, of "Suc k"] by blast
    with True show ?thesis by simp
  next
    case False
    with "3.prems" have u: "c = CHR ''_'' \<and> is_digit d"
      and r: "int_digits (acc * 10 + digit_val d) cs = Some v"
      by (simp_all split: if_splits)
    have "0 \<le> acc * 10 + digit_val d \<and> acc * 10 + digit_val d < 10 ^ Suc k"
      using "3.prems" u digit_val_range [of d] by (intro append_digit_bound) simp_all
    then have "0 \<le> v \<and> v < 10 ^ (Suc k + length (filter is_digit cs))"
      using "3.IH"(2) [OF False u, of "Suc k"] r by blast
    with False u show ?thesis by simp
  qed
qed

lemma unsigned_int_bound:
  assumes "unsigned_int run = Some v"
  shows "0 \<le> v \<and> v < 10 ^ length (filter is_digit run)"
proof (cases run)
  case Nil
  with assms show ?thesis by (simp add: unsigned_int_def)
next
  case (Cons c cs)
  with assms have c: "is_digit c" and r: "int_digits (digit_val c) cs = Some v"
    by (simp_all add: unsigned_int_def split: if_splits)
  have "0 \<le> digit_val c" "digit_val c < 10 ^ 1"
    using digit_val_range [OF c] by simp_all
  from int_digits_bound [OF r this] c Cons show ?thesis
    by simp
qed

lemma py_int_bound_aux:
  assumes "(case u of None \<Rightarrow> Inl (IntLiteralError s)
    | Some v \<Rightarrow> if lim < n then Inl (IntDigitLimit n)
               else if c2 then Inl (IntLiteralError s)
               else Inr (if neg then - v else v)) = Inr (r :: int)"
  obtains v where "u = Some v" "n \<le> lim" "\<bar>r\<bar> = \<bar>v\<bar>"
  using assms by (auto split: option.splits if_splits)

lemma py_int_bound:
  assumes "py_int f = Inr r"
  shows "\<bar>r\<bar> < 10 ^ max_str_digits"
proof -
  let ?body = "dropWhile is_space f"
  let ?ds = "if ?body \<noteq> [] \<and> (hd ?body = CHR ''+'' \<or> hd ?body = CHR ''-'')
             then tl ?body else ?body"
  let ?run = "takeWhile is_run_char ?ds"
  from assms obtain v where v: "unsigned_int ?run = Some v"
    and n: "length (filter is_digit ?run) \<le> max_str_digits" and r: "\<bar>r\<bar> = \<bar>v\<bar>"
    unfolding py_int_def Let_def by (rule py_int_bound_aux)
  from unsigned_int_bound [OF v] have "0 \<le> v" "v < 10 ^ length (filter is_digit ?run)"
    by simp_all
  moreover have "(10::int) ^ length (filter is_digit ?run) \<le> 10 ^ max_str_digits"
    using n by (intro power_increasing) simp_all
  ultimately show ?thesis
    using r by linarith
qed

lemma Time_init_no_limit_error:
  assumes "\<bar>h\<bar> < 10 ^ max_str_digits" "\<bar>m\<bar> < 10 ^ max_str_digits" "\<bar>s\<bar> < 10 ^ max_str_digits"
    and "Time_init h m s = Inl e"
  shows "\<exists>msg. e = ValueError msg None"
  using assms(4) unfolding Time_init_def validate_range_def range_message_def
    py_str_small [OF assms(1)] py_str_small [OF assms(2)] py_str_small [OF assms(3)]
    py_str_0 py_str_23 py_str_59
  by (auto split: if_splits)

lemma from_string_range_cause:
  assumes "parsed_fields s = Some (h, m, sec)" "Time_init h m sec = Inl e"
  shows "\<exists>msg. e = ValueError msg None"
proof -
  from assms(1) obtain f1 f2 f3 where "py_int f1 = Inr h" "py_int f2 = Inr m" "py_int f3 = Inr sec"
    unfolding parsed_fields_Some unpack3_result by blast
  then have "\<bar>h\<bar> < 10 ^ max_str_digits" "\<bar>m\<bar> < 10 ^ max_str_digits"
    "\<bar>sec\<bar> < 10 ^ max_str_digits"
    by (simp_all add: py_int_bound)
  then show ?thesis
    using assms(2) by (rule Time_init_no_limit_error)
qed

text \<open>
  Claim C1, as amended. A text that does not break into exactly three fields between colons,
  each an integer literal, makes \<open>from_string\<close> raise the \<open>ValueError\<close> with the format
  message, chained to the failure of reading the text. A text whose three fields are
  integers of which one is out of range makes it raise the \<open>ValueError\<close> with the same format
  message, chained to the range error of the constructor, which is no failure of reading:
  the two cases differ in the cause of the exception, not in its kind or message.
\<close>

theorem from_string_errors:
  "(parsed_fields s = None \<longrightarrow>
      (\<exists>c. from_string s = Inl (ValueError format_message (Some c)) \<and> is_parse_failure c))
   \<and> (\<forall>h m sec e. parsed_fields s = Some (h, m, sec) \<and> Time_init h m sec = Inl e \<longrightarrow>
        from_string s = Inl (ValueError format_message (Some e)) \<and> \<not> is_parse_failure e)"
  using from_string_malformed [of s] from_string_out_of_range [of s]
  by blast

theorem from_string_errors_witness:
  "parsed_fields ''1:2'' = None
   \<and> (\<exists>c. from_string ''1:2'' = Inl (ValueError format_message (Some c)) \<and> is_parse_failure c)
   \<and> parsed_fields ''0:60:0'' = Some (0, 60, 0)
   \<and> Time_init 0 60 0 = Inl (ValueError ''minutes must be between 0-59, got 60'' None)
   \<and> from_string ''0:60:0'' =
        Inl (ValueError format_message
              (Some (ValueError ''minutes must be between 0-59, got 60'' None)))"
proof -
  have a: "parsed_fields ''1:2'' = None"
    by code_simp
  have b: "parsed_fields ''0:60:0'' = Some (0, 60, 0)"
    by code_simp
  note c = Time_init_0_60_0
  show ?thesis
    using a b c from_string_errors [of "''1:2''"] from_string_errors [of "''0:60:0''"]
    by simp
qed

text \<open>
  The range error of the constructor does not leave \<open>from_string\<close> as it was raised: for
  \<open>24:00:00\<close> the exception raised has the message of a malformed text, as for \<open>a:b:c\<close>.
\<close>

theorem from_string_range_counterexample:
  "parsed_fields ''24:00:00'' = Some (24, 0, 0)
   \<and> Time_init 24 0 0 = Inl (ValueError ''hours must be between 0-23, got 24'' None)
   \<and> from_string ''24:00:00'' \<noteq> Time_init 24 0 0
   \<and> from_string ''24:00:00'' =
        Inl (ValueError ''Time string must be in HH:MM:SS format''
              (Some (ValueError ''hours must be between 0-23, got 24'' None)))
   \<and> from_string ''a:b:c'' =
        Inl (ValueError ''Time string must be in HH:MM:SS format''
              (Some (IntLiteralError ''a'')))"
proof -
  have a: "parsed_fields ''24:00:00'' = Some (24, 0, 0)"
    by code_simp
  note b = Time_init_24_0_0
  have c: "from_string ''24:00:00'' =
        Inl (ValueError ''Time string must be in HH:MM:SS format''
              (Some (ValueError ''hours must be between 0-23, got 24'' None)))"
    using from_string_out_of_range [OF a b] by (simp add: format_message_def)
  have d: "from_string ''a:b:c'' =
        Inl (ValueError ''Time string must be in HH:MM:SS format''
              (Some (IntLiteralError ''a'')))"
    by code_simp
  show ?thesis
    using a b c d by simp
qed

end
